theory Spec2Isabelle
  imports Complex_Main
begin

section \<open>Clustered-loss tracker (core/loss\_cluster.py)\<close>

text \<open>
  Time. A Python \<open>datetime\<close> is modelled by the integer number of microseconds (its
  resolution) since a fixed origin, a \<open>timedelta\<close> by an integer number of microseconds.
  All datetimes are naive, as \<open>datetime.utcnow()\<close> returns them; the representable range
  of \<open>datetime\<close> (years 1 to 9999) is not modelled, time is unbounded in both directions.
  In this module a Python \<open>float\<close> (the pnl, the returned multiplier) is modelled by the
  real number it denotes; NaN and the infinities are outside the model. The module does
  no float arithmetic: the pnl is only compared with 0, and 0.25 and 1.0 are returned
  as they are.

  Every read of the wall clock (\<open>datetime.utcnow()\<close>, \<open>time.time()\<close>) is an explicit
  argument of the function that performs it.
\<close>

record LossEvent =
  ts :: int
  pnl :: real

record LossClusterTracker =
  window :: int
  cooldown :: int
  throttle_losses :: int
  pause_losses :: int
  losses :: "LossEvent list"
  cooldown_until :: "int option"

text \<open>\<open>timedelta(minutes=n)\<close>, in microseconds.\<close>

definition timedelta_minutes :: "int \<Rightarrow> int" where
  "timedelta_minutes n = n * 60000000"

text \<open>\<open>LossClusterTracker.__init__\<close>; the defaults are 30, 2, 3 and 20.\<close>

definition new_tracker :: "int \<Rightarrow> int \<Rightarrow> int \<Rightarrow> int \<Rightarrow> LossClusterTracker" where
  "new_tracker window_minutes throttle pause cooldown_minutes =
     \<lparr> window = timedelta_minutes window_minutes,
       cooldown = timedelta_minutes cooldown_minutes,
       throttle_losses = throttle,
       pause_losses = pause,
       losses = [],
       cooldown_until = None \<rparr>"

definition default_tracker :: LossClusterTracker where
  "default_tracker = new_tracker 30 2 3 20"

text \<open>
  \<open>_prune\<close>: the loop \<open>while self._losses and now - self._losses[0].ts > self.window:
  self._losses.popleft()\<close> removes events from the front of the deque only, and stops at
  the first event that is not older than the window.
\<close>

fun prune_losses :: "int \<Rightarrow> int \<Rightarrow> LossEvent list \<Rightarrow> LossEvent list" where
  "prune_losses w now [] = []"
| "prune_losses w now (e # es) =
     (if now - ts e > w then prune_losses w now es else e # es)"

definition prune :: "LossClusterTracker \<Rightarrow> int \<Rightarrow> LossClusterTracker" where
  "prune t now = t\<lparr>losses := prune_losses (window t) now (losses t)\<rparr>"

text \<open>
  \<open>record_loss(pnl, ts=None)\<close>. The third argument is the optional timestamp, the fourth
  the value \<open>datetime.utcnow()\<close> has at the call, read only when no timestamp is given
  (\<open>ts = ts or datetime.utcnow()\<close>; a datetime is never falsy).
\<close>

definition record_loss ::
  "LossClusterTracker \<Rightarrow> real \<Rightarrow> int option \<Rightarrow> int \<Rightarrow> LossClusterTracker" where
  "record_loss t p ts_arg utcnow =
     (if p \<ge> 0 then t
      else
        let stamp = (case ts_arg of Some s \<Rightarrow> s | None \<Rightarrow> utcnow);
            t1 = t\<lparr>losses := losses t @ [\<lparr>ts = stamp, pnl = p\<rparr>]\<rparr>;
            t2 = prune t1 stamp
        in if int (length (losses t2)) \<ge> pause_losses t2
           then t2\<lparr>cooldown_until := Some (stamp + cooldown t2)\<rparr>
           else t2)"

text \<open>\<open>should_pause()\<close>; the second argument is \<open>datetime.utcnow()\<close> at the call.\<close>

definition should_pause :: "LossClusterTracker \<Rightarrow> int \<Rightarrow> bool" where
  "should_pause t utcnow =
     (case cooldown_until t of None \<Rightarrow> False | Some u \<Rightarrow> utcnow < u)"

text \<open>\<open>throttle_multiplier()\<close>; 0.25 and 1.0 are exact as floats.\<close>

definition throttle_multiplier :: "LossClusterTracker \<Rightarrow> real" where
  "throttle_multiplier t =
     (if int (length (losses t)) \<ge> throttle_losses t then 0.25 else 1.0)"

text \<open>
  A call of \<open>record_loss\<close>: its arguments and the clock reading at the call.
  \<open>record_losses\<close> performs a sequence of calls, oldest first.
\<close>

record loss_call =
  call_pnl :: real
  call_ts :: "int option"
  call_utcnow :: int

definition stamp_of :: "loss_call \<Rightarrow> int" where
  "stamp_of c = (case call_ts c of Some s \<Rightarrow> s | None \<Rightarrow> call_utcnow c)"

fun record_losses :: "LossClusterTracker \<Rightarrow> loss_call list \<Rightarrow> LossClusterTracker" where
  "record_losses t [] = t"
| "record_losses t (c # cs) =
     record_losses (record_loss t (call_pnl c) (call_ts c) (call_utcnow c)) cs"

text \<open>The event a call appends when its pnl is negative.\<close>

definition event_of :: "loss_call \<Rightarrow> LossEvent" where
  "event_of c = \<lparr>ts = stamp_of c, pnl = call_pnl c\<rparr>"

text \<open>A losing call with an explicit timestamp, for the concrete runs below.\<close>

definition loss_at :: "int \<Rightarrow> loss_call" where
  "loss_at s = \<lparr>call_pnl = -1, call_ts = Some s, call_utcnow = 0\<rparr>"




section \<open>Data-quality monitor (monitoring/data\_quality.py)\<close>

text \<open>
  Errors. A raised exception is the \<open>Inl\<close> branch of a sum. The module can raise
  \<open>IndexError\<close> (an index into an empty sequence), \<open>OverflowError\<close> (an integer too
  large to convert to a float, or \<open>int\<close> of an infinite float) and \<open>ValueError\<close>
  (\<open>int\<close> of a NaN); the \<open>ValueError\<close> of \<open>int(str)\<close> is caught where it is raised.
\<close>

datatype py_error = IndexError | OverflowError | ValueError

subsection \<open>Python's \<open>int(str)\<close>\<close>

text \<open>
  Strings are sequences of code points below 256, one \<open>char\<close> each. \<open>int(s)\<close>, base 10:
  optional surrounding whitespace, an optional sign, then decimal digits in which single
  underscores may separate digits. Below 256 the characters the conversion takes as
  whitespace are space, U+0009 to U+000D, U+0085 and U+00A0 (not U+001C to U+001F), and
  the only decimal digits are 0 to 9. A string with more than \<open>int_max_str_digits\<close>
  digits is refused; 4300 is the interpreter's default limit. \<open>None\<close> stands for
  \<open>ValueError\<close>.
\<close>

definition is_space :: "char \<Rightarrow> bool" where
  "is_space c =
     (c \<in> set [CHR '' '', CHR 0x09, CHR 0x0A, CHR 0x0B, CHR 0x0C, CHR 0x0D, CHR 0x85, CHR 0xA0])"

definition is_digit :: "char \<Rightarrow> bool" where
  "is_digit c = (48 \<le> (of_char c :: nat) \<and> (of_char c :: nat) \<le> 57)"

definition digit_value :: "char \<Rightarrow> int" where
  "digit_value c = int (of_char c) - 48"

definition int_max_str_digits :: int where
  "int_max_str_digits = 4300"

text \<open>
  The digits after the sign: the accumulator holds the value read so far, the flag says
  that the previous character was an underscore.
\<close>

fun py_digits :: "string \<Rightarrow> int \<Rightarrow> bool \<Rightarrow> int option" where
  "py_digits [] acc prev_us = (if prev_us then None else Some acc)"
| "py_digits (c # cs) acc prev_us =
     (if c = CHR ''_'' then (if prev_us then None else py_digits cs acc True)
      else if is_digit c then py_digits cs (acc * 10 + digit_value c) False
      else None)"

definition py_int :: "string \<Rightarrow> int option" where
  "py_int s =
     (let body = rev (dropWhile is_space (rev (dropWhile is_space s)));
          negative = (body \<noteq> [] \<and> hd body = CHR ''-'');
          ds = (if body \<noteq> [] \<and> (hd body = CHR ''+'' \<or> hd body = CHR ''-'')
                then tl body else body)
      in if ds = [] \<or> hd ds = CHR ''_'' then None
         else if int (length (filter is_digit ds)) > int_max_str_digits then None
         else map_option (\<lambda>v. if negative then - v else v) (py_digits ds 0 False))"

subsection \<open>Floats\<close>

text \<open>
  A Python \<open>float\<close> is an IEEE 754 double: \<open>Fin m e\<close> is the finite value \<open>m * 2 ^ e\<close>
  (the sign of a zero is not kept; it has no effect on a comparison or on \<open>int\<close>), and
  there are the two infinities and NaN. The finite doubles are the values \<open>k * 2 ^ q\<close>
  with \<open>\<bar>k\<bar> < 2 ^ 53\<close> and \<open>- 1074 \<le> q \<le> 971\<close>; a float argument is taken to be
  one of them. Results of arithmetic are rounded to the nearest double, ties to even.
\<close>

datatype pyfloat = Fin int int | PosInf | NegInf | NaN

text \<open>The number of binary digits of a positive integer, \<open>n.bit_length()\<close>.\<close>

function bit_length :: "int \<Rightarrow> int" where
  "bit_length n = (if n \<le> 0 then 0 else 1 + bit_length (n div 2))"
  by pat_completeness auto
termination
  by (relation "measure nat") auto

declare bit_length.simps [simp del]

text \<open>\<open>m / d\<close> rounded to the nearest integer, ties to even, for \<open>d > 0\<close>.\<close>

definition round_half_even :: "int \<Rightarrow> int \<Rightarrow> int" where
  "round_half_even m d =
     (let q = m div d; r = m mod d
      in if 2 * r < d then q
         else if 2 * r > d then q + 1
         else if even q then q else q + 1)"

text \<open>
  The double nearest to the exact value \<open>m * 2 ^ e\<close>. For \<open>m\<close> not 0 the value lies in
  \<open>[2 ^ E, 2 ^ (E + 1))\<close>; a double there is a multiple of \<open>2 ^ q\<close> with \<open>q = E - 52\<close>,
  or \<open>q = - 1074\<close> in the subnormal range. The result is infinite when the rounded value
  reaches \<open>2 ^ 1024\<close>.
\<close>

definition round_double :: "int \<Rightarrow> int \<Rightarrow> pyfloat" where
  "round_double m e =
     (if m = 0 then Fin 0 0
      else
        let E = bit_length \<bar>m\<bar> + e - 1;
            q = max (E - 52) (- 1074);
            k = (if e \<ge> q then m * 2 ^ nat (e - q) else round_half_even m (2 ^ nat (q - e)))
        in if q \<ge> 972 \<or> (q = 971 \<and> \<bar>k\<bar> \<ge> 2 ^ 53)
           then (if m > 0 then PosInf else NegInf)
           else Fin k q)"

text \<open>
  The conversion of an \<open>int\<close> operand to a float in mixed arithmetic: correctly
  rounded, \<open>OverflowError\<close> when the rounded value is out of range.
\<close>

definition float_of_int :: "int \<Rightarrow> py_error + pyfloat" where
  "float_of_int n =
     (case round_double n 0 of
        PosInf \<Rightarrow> Inl OverflowError
      | NegInf \<Rightarrow> Inl OverflowError
      | f \<Rightarrow> Inr f)"

definition float_sign :: "pyfloat \<Rightarrow> int" where
  "float_sign x = (case x of Fin m e \<Rightarrow> sgn m | PosInf \<Rightarrow> 1 | NegInf \<Rightarrow> - 1 | NaN \<Rightarrow> 0)"

text \<open>
  The product of two floats. It never raises: an overflow gives an infinity, and an
  infinity times zero, or anything times NaN, gives NaN.
\<close>

definition fmul :: "pyfloat \<Rightarrow> pyfloat \<Rightarrow> pyfloat" where
  "fmul x y =
     (case (x, y) of
        (Fin a e, Fin b f) \<Rightarrow> round_double (a * b) (e + f)
      | _ \<Rightarrow> if float_sign x * float_sign y = 0 then NaN
             else if float_sign x * float_sign y > 0 then PosInf else NegInf)"

text \<open>\<open>n * x\<close> for an \<open>int\<close> \<open>n\<close> and a float \<open>x\<close>: the \<open>int\<close> is converted first.\<close>

definition int_times_float :: "int \<Rightarrow> pyfloat \<Rightarrow> py_error + pyfloat" where
  "int_times_float n x =
     (case float_of_int n of Inl err \<Rightarrow> Inl err | Inr f \<Rightarrow> Inr (fmul f x))"

text \<open>\<open>n > x\<close> for an \<open>int\<close> \<open>n\<close> and a float \<open>x\<close>; Python compares the exact values.\<close>

definition int_gt_float :: "int \<Rightarrow> pyfloat \<Rightarrow> bool" where
  "int_gt_float n x =
     (case x of
        Fin m e \<Rightarrow> (if e \<ge> 0 then n > m * 2 ^ nat e else n * 2 ^ nat (- e) > m)
      | PosInf \<Rightarrow> False
      | NegInf \<Rightarrow> True
      | NaN \<Rightarrow> False)"

text \<open>\<open>int(x)\<close> on a float truncates towards zero, and raises on an infinity or NaN.\<close>

definition int_of_float :: "pyfloat \<Rightarrow> py_error + int" where
  "int_of_float x =
     (case x of
        Fin m e \<Rightarrow>
          Inr (if e \<ge> 0 then m * 2 ^ nat e else sgn m * (\<bar>m\<bar> div 2 ^ nat (- e)))
      | PosInf \<Rightarrow> Inl OverflowError
      | NegInf \<Rightarrow> Inl OverflowError
      | NaN \<Rightarrow> Inl ValueError)"

text \<open>The doubles written \<open>1.4\<close> and \<open>2.0\<close> in the source.\<close>

definition float_1_4 :: pyfloat where
  "float_1_4 = Fin 6305039478318694 (- 52)"

definition float_2_0 :: pyfloat where
  "float_2_0 = Fin 2 0"

subsection \<open>The module\<close>

text \<open>
  \<open>_timeframe_ms\<close>. \<open>timeframe[-1]\<close> is evaluated first and outside the \<open>try\<close>, so the
  empty string raises \<open>IndexError\<close>; the \<open>ValueError\<close> of \<open>int(timeframe[:-1])\<close> is
  caught and gives the default.
\<close>

definition timeframe_ms :: "string \<Rightarrow> py_error + int" where
  "timeframe_ms timeframe =
     (if timeframe = [] then Inl IndexError
      else
        let unit = last timeframe in
        case py_int (butlast timeframe) of
          None \<Rightarrow> Inr 300000
        | Some v \<Rightarrow>
            if unit = CHR ''s'' then Inr (v * 1000)
            else if unit = CHR ''m'' then Inr (v * 60000)
            else if unit = CHR ''h'' then Inr (v * 3600000)
            else if unit = CHR ''d'' then Inr (v * 86400000)
            else Inr 300000)"

text \<open>
  The status that \<open>evaluate\<close> returns through \<open>as_dict\<close>; the dictionary has the same
  five entries, \<open>gap_detected\<close> under the key \<open>gap\<close>.
\<close>

record DataQualityStatus =
  last_ts :: int
  gap_ms :: int
  gap_detected :: bool
  stale :: bool
  alert :: bool

text \<open>
  The two multipliers enter float products and are doubles. The alert interval and the
  alert times enter only \<open>now - last >= alert_interval_sec\<close> in \<open>_should_alert\<close>; they
  are modelled by the real numbers the floats denote and the difference is taken
  exactly, as it is in floating point whenever \<open>last\<close> is 0 or within a factor of two of
  \<open>now\<close>.
\<close>

record DataQualityMonitor =
  enabled :: bool
  alert_interval_sec :: real
  gap_multiplier :: pyfloat
  stale_multiplier :: pyfloat
  last_alert :: "string \<rightharpoonup> real"

text \<open>\<open>DataQualityMonitor()\<close> with the default arguments.\<close>

definition default_monitor :: DataQualityMonitor where
  "default_monitor =
     \<lparr> enabled = True, alert_interval_sec = 1800, gap_multiplier = float_1_4,
       stale_multiplier = float_2_0, last_alert = Map.empty \<rparr>"

text \<open>\<open>_should_alert(key)\<close>; \<open>now\<close> is the value of \<open>time.time()\<close> read in its body.\<close>

definition should_alert ::
  "DataQualityMonitor \<Rightarrow> real \<Rightarrow> string \<Rightarrow> bool \<times> DataQualityMonitor" where
  "should_alert m now key =
     (let last = (case last_alert m key of Some v \<Rightarrow> v | None \<Rightarrow> 0)
      in if now - last \<ge> alert_interval_sec m
         then (True, m\<lparr>last_alert := (last_alert m)(key \<mapsto> now)\<rparr>)
         else (False, m))"

text \<open>
  A candle row is the list of its fields, of which only the first, the timestamp in
  milliseconds (an integer), is read; \<open>row[0]\<close> raises on an empty row.
\<close>

definition first_field :: "int list \<Rightarrow> py_error + int" where
  "first_field row = (case row of [] \<Rightarrow> Inl IndexError | x # _ \<Rightarrow> Inr x)"

text \<open>The key \<open>f"{symbol}:{timeframe}"\<close>.\<close>

definition alert_key :: "string \<Rightarrow> string \<Rightarrow> string" where
  "alert_key symbol timeframe = symbol @ '':'' @ timeframe"

text \<open>\<open>int(time.time() * 1000)\<close> for the clock reading \<open>t\<close>; 1000 converts exactly.\<close>

definition clock_ms :: "pyfloat \<Rightarrow> py_error + int" where
  "clock_ms t = int_of_float (fmul t (Fin 1000 0))"

text \<open>
  \<open>evaluate(symbol, timeframe, ohlcv)\<close>. The clock is read twice: \<open>time_eval\<close> is the
  value of \<open>time.time()\<close> in the body of \<open>evaluate\<close>, \<open>time_alert\<close> its value in
  \<open>_should_alert\<close>, read only when a gap or staleness was found. The result is the
  returned value (\<open>Inr None\<close> for \<open>None\<close>, \<open>Inl\<close> for a raised exception) and the monitor
  after the call; every exception is raised before any field is assigned. The
  statements run in the order of the source: the expected interval, the two
  timestamps, the gap product and comparison, the clock in milliseconds, the stale
  product and comparison, the alert.
\<close>

definition evaluate ::
  "DataQualityMonitor \<Rightarrow> pyfloat \<Rightarrow> real \<Rightarrow> string \<Rightarrow> string \<Rightarrow> int list list \<Rightarrow>
     (py_error + DataQualityStatus option) \<times> DataQualityMonitor" where
  "evaluate m time_eval time_alert symbol timeframe ohlcv =
     (if \<not> enabled m \<or> length ohlcv < 2 then (Inr None, m)
      else
        case timeframe_ms timeframe of
          Inl err \<Rightarrow> (Inl err, m)
        | Inr expected_ms \<Rightarrow>
        (case first_field (last ohlcv) of
          Inl err \<Rightarrow> (Inl err, m)
        | Inr lts \<Rightarrow>
        (case first_field (last (butlast ohlcv)) of
          Inl err \<Rightarrow> (Inl err, m)
        | Inr prev_ts \<Rightarrow>
        (case int_times_float expected_ms (gap_multiplier m) of
          Inl err \<Rightarrow> (Inl err, m)
        | Inr gap_limit \<Rightarrow>
        (case clock_ms time_eval of
          Inl err \<Rightarrow> (Inl err, m)
        | Inr now_ms \<Rightarrow>
        (case int_times_float expected_ms (stale_multiplier m) of
          Inl err \<Rightarrow> (Inl err, m)
        | Inr stale_limit \<Rightarrow>
            let gap = lts - prev_ts;
                is_gap = int_gt_float gap gap_limit;
                is_stale = int_gt_float (now_ms - lts) stale_limit;
                fired = (if is_gap \<or> is_stale
                         then should_alert m time_alert (alert_key symbol timeframe)
                         else (False, m))
            in (Inr (Some \<lparr> last_ts = lts, gap_ms = gap, gap_detected = is_gap,
                             stale = is_stale, alert = fst fired \<rparr>),
                snd fired)))))))"

text \<open>
  A call of \<open>evaluate\<close> with the two clock readings it makes, and a sequence of calls on
  one monitor, oldest first. A call that raises leaves the monitor as it was.
\<close>

record eval_call =
  call_time :: pyfloat
  call_alert_time :: real
  call_symbol :: string
  call_timeframe :: string
  call_ohlcv :: "int list list"

definition evaluate_call ::
  "DataQualityMonitor \<Rightarrow> eval_call \<Rightarrow>
     (py_error + DataQualityStatus option) \<times> DataQualityMonitor" where
  "evaluate_call m c =
     evaluate m (call_time c) (call_alert_time c) (call_symbol c) (call_timeframe c)
       (call_ohlcv c)"

definition call_key :: "eval_call \<Rightarrow> string" where
  "call_key c = alert_key (call_symbol c) (call_timeframe c)"

text \<open>The returned value is a status that carries \<open>alert = True\<close>.\<close>

definition alerted :: "py_error + DataQualityStatus option \<Rightarrow> bool" where
  "alerted r = (case r of Inr (Some s) \<Rightarrow> alert s | _ \<Rightarrow> False)"

fun evaluate_calls :: "DataQualityMonitor \<Rightarrow> eval_call list \<Rightarrow> DataQualityMonitor" where
  "evaluate_calls m [] = m"
| "evaluate_calls m (c # cs) = evaluate_calls (snd (evaluate_call m c)) cs"

text \<open>
  The times (as read in \<open>_should_alert\<close>) of the calls for key \<open>k\<close> whose returned status
  carries \<open>alert = True\<close>, in the order of the calls.
\<close>

fun alert_times :: "DataQualityMonitor \<Rightarrow> string \<Rightarrow> eval_call list \<Rightarrow> real list" where
  "alert_times m k [] = []"
| "alert_times m k (c # cs) =
     (if call_key c = k \<and> alerted (fst (evaluate_call m c)) then [call_alert_time c] else [])
       @ alert_times (snd (evaluate_call m c)) k cs"

text \<open>The last alert time on record for a key, 0 when there is none.\<close>

definition last_or_0 :: "DataQualityMonitor \<Rightarrow> string \<Rightarrow> real" where
  "last_or_0 m k = (case last_alert m k of Some v \<Rightarrow> v | None \<Rightarrow> 0)"

text \<open>
  A call on the pair BTC/USD, 1m whose last candle is at 60000 ms, for the concrete runs
  below; both clock readings are \<open>t\<close> seconds, a whole number.
\<close>

definition stale_call :: "int \<Rightarrow> eval_call" where
  "stale_call t =
     \<lparr> call_time = Fin t 0, call_alert_time = real_of_int t, call_symbol = ''BTC/USD'',
       call_timeframe = ''1m'', call_ohlcv = [[0, 1], [60000, 2]] \<rparr>"
section \<open>Properties of the clustered-loss tracker\<close>

subsection \<open>Configuration and evaluation lemmas\<close>

lemma record_loss_config:
  "window (record_loss t p a u) = window t"
  "cooldown (record_loss t p a u) = cooldown t"
  "throttle_losses (record_loss t p a u) = throttle_losses t"
  "pause_losses (record_loss t p a u) = pause_losses t"
  by (simp_all add: record_loss_def prune_def Let_def)

lemma record_losses_config:
  "window (record_losses t cs) = window t \<and>
   cooldown (record_losses t cs) = cooldown t \<and>
   throttle_losses (record_losses t cs) = throttle_losses t \<and>
   pause_losses (record_losses t cs) = pause_losses t"
  by (induction cs arbitrary: t) (simp_all add: record_loss_config)

lemma record_losses_snoc:
  "record_losses t (cs @ [c]) =
     record_loss (record_losses t cs) (call_pnl c) (call_ts c) (call_utcnow c)"
  by (induction cs arbitrary: t) simp_all


lemmas tracker_eval =
  record_loss_def prune_def Let_def default_tracker_def new_tracker_def
  timedelta_minutes_def loss_at_def stamp_of_def should_pause_def throttle_multiplier_def

subsection \<open>Arming the cooldown\<close>

lemma record_loss_arms:
  assumes "p < 0"
    and "pause_losses t \<le> int (length (losses (record_loss t p a u)))"
  shows "cooldown_until (record_loss t p a u) =
           Some ((case a of Some s \<Rightarrow> s | None \<Rightarrow> u) + cooldown t)"
  using assms by (simp add: record_loss_def prune_def Let_def split: if_splits)

lemma should_pause_Some: "cooldown_until t = Some e \<Longrightarrow> should_pause t now = (now < e)"
  by (simp add: should_pause_def)

lemma should_pause_None: "cooldown_until t = None \<Longrightarrow> \<not> should_pause t now"
  by (simp add: should_pause_def)

text \<open>
  Pruning looks at the head of the deque only: while the newest timestamp is within the
  window of the oldest retained event, nothing is removed.
\<close>

lemma prune_losses_keep:
  "es \<noteq> [] \<Longrightarrow> now - ts (hd es) \<le> w \<Longrightarrow> prune_losses w now es = es"
  by (cases es) simp_all

lemma record_loss_keep:
  assumes "p < 0"
    and "stamp = (case a of Some s \<Rightarrow> s | None \<Rightarrow> u)"
    and "stamp - ts (hd (losses t @ [\<lparr>ts = stamp, pnl = p\<rparr>])) \<le> window t"
  shows "losses (record_loss t p a u) = losses t @ [\<lparr>ts = stamp, pnl = p\<rparr>]"
  using assms by (simp add: record_loss_def prune_def Let_def prune_losses_keep)

lemma record_losses_keep_all:
  assumes "losses t = []"
    and "\<forall>c \<in> set cs. call_pnl c < 0 \<and> stamp_of c - stamp_of (hd cs) \<le> window t"
  shows "losses (record_losses t cs) = map event_of cs"
  using assms
proof (induction cs rule: rev_induct)
  case Nil
  then show ?case by simp
next
  case (snoc c cs)
  let ?prev = "record_losses t cs"
  have hd_eq: "cs \<noteq> [] \<Longrightarrow> hd (cs @ [c]) = hd cs" by simp
  have prev: "losses ?prev = map event_of cs"
  proof (cases "cs = []")
    case True
    then show ?thesis using snoc.prems by simp
  next
    case False
    then show ?thesis using snoc by (simp add: hd_eq)
  qed
  have neg: "call_pnl c < 0" using snoc.prems by simp
  have win: "stamp_of c - stamp_of (hd (cs @ [c])) \<le> window t" using snoc.prems by simp
  have "stamp_of c - ts (hd (losses ?prev @ [\<lparr>ts = stamp_of c, pnl = call_pnl c\<rparr>]))
          \<le> window ?prev"
  proof (cases "cs = []")
    case True
    then show ?thesis using win prev by (simp add: record_losses_config)
  next
    case False
    then show ?thesis using win prev
      by (simp add: record_losses_config hd_map event_of_def hd_append)
  qed
  then have "losses (record_loss ?prev (call_pnl c) (call_ts c) (call_utcnow c)) =
               losses ?prev @ [\<lparr>ts = stamp_of c, pnl = call_pnl c\<rparr>]"
    using neg by (intro record_loss_keep) (simp_all add: stamp_of_def)
  then show ?case by (simp add: record_losses_snoc prev event_of_def)
qed

text \<open>
  C1. Whenever a call of \<open>record_loss\<close> with a negative pnl leaves at least
  \<open>pause_losses\<close> retained events, in whatever state the earlier calls left the tracker,
  it sets the cooldown expiry to the timestamp of that loss (the supplied one, or the
  clock reading when none is supplied) plus the cooldown, and \<open>should_pause\<close> is then true
  at every current time strictly before that expiry and false at or after it. In
  particular, for a freshly constructed tracker and any non-empty sequence of losses
  whose timestamps all lie within the window of the first one, every loss is retained,
  and once the sequence has at least \<open>pause_losses\<close> losses the expiry is the last loss's
  timestamp plus the cooldown. A tracker whose expiry was never set never pauses.
\<close>

theorem pause_after_threshold:
  "(p < 0 \<and> pause_losses t \<le> int (length (losses (record_loss t p a u))) \<longrightarrow>
      cooldown_until (record_loss t p a u) =
        Some ((case a of Some s \<Rightarrow> s | None \<Rightarrow> u) + cooldown t) \<and>
      (\<forall>now. should_pause (record_loss t p a u) now =
        (now < (case a of Some s \<Rightarrow> s | None \<Rightarrow> u) + cooldown t))) \<and>
   (cs \<noteq> [] \<and> pa \<le> int (length cs) \<and>
    (\<forall>c \<in> set cs. call_pnl c < 0 \<and>
        stamp_of c - stamp_of (hd cs) \<le> timedelta_minutes w) \<longrightarrow>
      length (losses (record_losses (new_tracker w th pa cd) cs)) = length cs \<and>
      cooldown_until (record_losses (new_tracker w th pa cd) cs) =
        Some (stamp_of (last cs) + timedelta_minutes cd) \<and>
      (\<forall>now. should_pause (record_losses (new_tracker w th pa cd) cs) now =
        (now < stamp_of (last cs) + timedelta_minutes cd))) \<and>
   (cooldown_until t = None \<longrightarrow> (\<forall>now. \<not> should_pause t now))"
proof (intro conjI impI)
  assume h: "p < 0 \<and> pause_losses t \<le> int (length (losses (record_loss t p a u)))"
  then show "cooldown_until (record_loss t p a u) =
      Some ((case a of Some s \<Rightarrow> s | None \<Rightarrow> u) + cooldown t)"
    by (simp add: record_loss_arms)
  then show "\<forall>now. should_pause (record_loss t p a u) now =
      (now < (case a of Some s \<Rightarrow> s | None \<Rightarrow> u) + cooldown t)"
    by (simp add: should_pause_Some)
next
  let ?init = "new_tracker w th pa cd"
  assume h: "cs \<noteq> [] \<and> pa \<le> int (length cs) \<and>
    (\<forall>c \<in> set cs. call_pnl c < 0 \<and>
        stamp_of c - stamp_of (hd cs) \<le> timedelta_minutes w)"
  have fresh: "losses ?init = []" "window ?init = timedelta_minutes w"
    "cooldown ?init = timedelta_minutes cd" "pause_losses ?init = pa"
    by (simp_all add: new_tracker_def)
  have all: "losses (record_losses ?init cs) = map event_of cs"
    using h fresh by (intro record_losses_keep_all) simp_all
  then show len: "length (losses (record_losses ?init cs)) = length cs" by simp
  obtain bs c where cs: "cs = bs @ [c]" using h by (metis rev_exhaust)
  let ?prev = "record_losses ?init bs"
  have step: "record_losses ?init cs =
      record_loss ?prev (call_pnl c) (call_ts c) (call_utcnow c)"
    by (simp add: cs record_losses_snoc)
  have neg: "call_pnl c < 0" using h cs by simp
  have "pause_losses ?prev \<le>
      int (length (losses (record_loss ?prev (call_pnl c) (call_ts c) (call_utcnow c))))"
    using h len step fresh by (simp add: record_losses_config)
  then have "cooldown_until (record_loss ?prev (call_pnl c) (call_ts c) (call_utcnow c)) =
      Some ((case call_ts c of Some s \<Rightarrow> s | None \<Rightarrow> call_utcnow c) + cooldown ?prev)"
    using neg by (simp add: record_loss_arms)
  then show exp: "cooldown_until (record_losses ?init cs) =
      Some (stamp_of (last cs) + timedelta_minutes cd)"
    using step fresh by (simp add: cs stamp_of_def record_losses_config)
  show "\<forall>now. should_pause (record_losses ?init cs) now =
      (now < stamp_of (last cs) + timedelta_minutes cd)"
    using exp by (simp add: should_pause_Some)
next
  assume "cooldown_until t = None"
  then show "\<forall>now. \<not> should_pause t now" by (simp add: should_pause_None)
qed

text \<open>
  The default tracker (window 30 min, pause at 3, cooldown 20 min) after losses at
  minutes 0, 1 and 2: the expiry is minute 22, the pause holds one microsecond before
  it and no longer at it.
\<close>

theorem pause_after_threshold_witness:
  "(-1::real) < 0 \<and>
   length (losses (record_losses default_tracker
     [loss_at 0, loss_at 60000000, loss_at 120000000])) = 3 \<and>
   cooldown_until (record_losses default_tracker
     [loss_at 0, loss_at 60000000, loss_at 120000000]) = Some 1320000000 \<and>
   should_pause (record_losses default_tracker
     [loss_at 0, loss_at 60000000, loss_at 120000000]) 1319999999 \<and>
   \<not> should_pause (record_losses default_tracker
     [loss_at 0, loss_at 60000000, loss_at 120000000]) 1320000000 \<and>
   cooldown_until (record_loss (record_losses default_tracker [loss_at 0, loss_at 60000000])
     (-1) (Some 120000000) 0) = Some 1320000000 \<and>
   cooldown_until default_tracker = None \<and> \<not> should_pause default_tracker 0"
  using pause_after_threshold [where p = "-1"
      and t = "record_losses default_tracker [loss_at 0, loss_at 60000000]"
      and a = "Some 120000000" and u = 0
      and cs = "[loss_at 0, loss_at 60000000, loss_at 120000000]"
      and pa = 3 and w = 30 and th = 2 and cd = 20]
    pause_after_threshold [where t = default_tracker and cs = "[]"]
  by (simp add: tracker_eval)

subsection \<open>Lazy pruning\<close>

text \<open>
  C3 (as the code behaves). Pruning runs only inside \<open>record_loss\<close>; the passage of time
  changes no field of the tracker. After one loss is recorded on a freshly constructed
  tracker with a non-negative window, the tracker retains exactly that event however
  far the clock advances. At any current time more than the window after the loss,
  \<open>should_pause\<close> is false provided \<open>pause_losses > 1\<close> or the cooldown is not longer
  than the window, and \<open>throttle_multiplier\<close> is 1.0 provided \<open>throttle_losses > 1\<close>;
  both provisos hold for the defaults.
\<close>

theorem single_loss_after_window:
  assumes "p < 0" and "0 \<le> w"
    and "timedelta_minutes w < now - (case a of Some s \<Rightarrow> s | None \<Rightarrow> u)"
  shows "losses (record_loss (new_tracker w th pa cd) p a u) =
           [\<lparr>ts = (case a of Some s \<Rightarrow> s | None \<Rightarrow> u), pnl = p\<rparr>] \<and>
         (1 < pa \<or> cd \<le> w \<longrightarrow>
            \<not> should_pause (record_loss (new_tracker w th pa cd) p a u) now) \<and>
         (1 < th \<longrightarrow>
            throttle_multiplier (record_loss (new_tracker w th pa cd) p a u) = 1.0)"
  using assms
  by (auto simp: record_loss_def prune_def Let_def new_tracker_def timedelta_minutes_def
      should_pause_def throttle_multiplier_def)

theorem single_loss_after_window_witness:
  "(-1::real) < 0 \<and> (0::int) \<le> 30 \<and> timedelta_minutes 30 < 1800000001 - 0 \<and>
   losses (record_loss default_tracker (-1) (Some 0) 0) = [\<lparr>ts = 0, pnl = -1\<rparr>] \<and>
   \<not> should_pause (record_loss default_tracker (-1) (Some 0) 0) 1800000001 \<and>
   throttle_multiplier (record_loss default_tracker (-1) (Some 0) 0) = 1.0"
  using single_loss_after_window [where p = "-1" and w = 30 and now = 1800000001
      and a = "Some 0" and u = 0 and th = 2 and pa = 3 and cd = 20]
  by (simp add: default_tracker_def timedelta_minutes_def)

text \<open>
  The claim as stated fails: one loss at time 0 on the default tracker, read one
  microsecond after the 30 minute window has passed, is still retained.
\<close>

theorem single_loss_still_retained:
  "\<not> (length (losses (record_loss default_tracker (-1) (Some 0) 0)) = 0 \<and>
      \<not> should_pause (record_loss default_tracker (-1) (Some 0) 0) 1800000001 \<and>
      throttle_multiplier (record_loss default_tracker (-1) (Some 0) 0) = 1.0)"
  by (simp add: tracker_eval)

subsection \<open>The cooldown expiry over a run\<close>













subsection \<open>Throttle and no-op\<close>

text \<open>
  C8. \<open>throttle_multiplier\<close> is exactly 0.25 when the number of retained events is at
  least \<open>throttle_losses\<close> (so in particular for every count from \<open>throttle_losses\<close> up
  to, but not including, \<open>pause_losses\<close>), and exactly 1.0 when it is strictly below.
  The method assigns no field of the tracker: it is a function from the tracker to the
  multiplier, with no tracker among its results.
\<close>

theorem throttle_multiplier_threshold:
  "(throttle_losses t \<le> int (length (losses t)) \<longrightarrow> throttle_multiplier t = 0.25) \<and>
   (int (length (losses t)) < throttle_losses t \<longrightarrow> throttle_multiplier t = 1.0)"
  by (simp add: throttle_multiplier_def)

theorem throttle_multiplier_threshold_witness:
  "throttle_losses (record_losses default_tracker [loss_at 0, loss_at 1]) \<le>
     int (length (losses (record_losses default_tracker [loss_at 0, loss_at 1]))) \<and>
   throttle_multiplier (record_losses default_tracker [loss_at 0, loss_at 1]) = 0.25 \<and>
   int (length (losses (record_losses default_tracker [loss_at 0]))) <
     throttle_losses (record_losses default_tracker [loss_at 0]) \<and>
   throttle_multiplier (record_losses default_tracker [loss_at 0]) = 1.0"
  using throttle_multiplier_threshold [of "record_losses default_tracker [loss_at 0, loss_at 1]"]
    throttle_multiplier_threshold [of "record_losses default_tracker [loss_at 0]"]
  by (simp add: tracker_eval)

text \<open>
  C9. For every pnl that is at least 0 and any optional timestamp, \<open>record_loss\<close> returns
  the tracker it was given: the retained events, the cooldown expiry and every
  configuration field are unchanged.
\<close>

theorem record_loss_nonneg_noop: "0 \<le> p \<Longrightarrow> record_loss t p ts_arg utcnow = t"
  by (simp add: record_loss_def)

theorem record_loss_nonneg_noop_witness:
  "(0::real) \<le> 5 \<and> record_loss default_tracker 5 None 0 = default_tracker \<and>
   record_loss (record_losses default_tracker [loss_at 0]) 0 (Some 7) 0 =
     record_losses default_tracker [loss_at 0]"
  using record_loss_nonneg_noop [of 5 default_tracker None 0]
    record_loss_nonneg_noop [of 0 "record_losses default_tracker [loss_at 0]" "Some 7" 0]
  by simp



section \<open>Properties of the data-quality monitor\<close>

subsection \<open>Evaluation lemmas\<close>

lemmas float_eval =
  round_double_def round_half_even_def bit_length.simps float_of_int_def fmul_def
  float_sign_def int_times_float_def int_gt_float_def int_of_float_def clock_ms_def
  float_1_4_def float_2_0_def

lemmas monitor_eval =
  evaluate_def timeframe_ms_def py_int_def is_space_def is_digit_def digit_value_def
  int_max_str_digits_def first_field_def should_alert_def alert_key_def default_monitor_def
  Let_def alerted_def evaluate_call_def call_key_def last_or_0_def stale_call_def

subsection \<open>Conversion of integers to floats\<close>

lemma bit_length_le: "n < 2 ^ k \<Longrightarrow> bit_length n \<le> int k"
proof (induction k arbitrary: n)
  case 0
  then show ?case by (simp add: bit_length.simps)
next
  case (Suc k)
  show ?case
  proof (cases "n \<le> 0")
    case True
    then show ?thesis by (simp add: bit_length.simps)
  next
    case False
    have "n div 2 < 2 ^ k" using Suc.prems by simp
    then have "bit_length (n div 2) \<le> int k" by (rule Suc.IH)
    then show ?thesis using False by (subst bit_length.simps) simp
  qed
qed

text \<open>Every integer below \<open>2 ^ 1023\<close> in magnitude converts to a float.\<close>

lemma float_of_int_in_range:
  assumes "\<bar>n\<bar> < 2 ^ 1023"
  shows "\<exists>f. float_of_int n = Inr f"
proof (cases "n = 0")
  case True
  then show ?thesis by (simp add: float_of_int_def round_double_def)
next
  case False
  have "bit_length \<bar>n\<bar> \<le> 1023" using bit_length_le [OF assms] by simp
  then show ?thesis using False
    by (auto simp: float_of_int_def round_double_def Let_def abs_if max_def)
qed

text \<open>
  The two float products behind the examples: \<open>60000 * 1.4\<close> is the double 84000.0, and
  \<open>86400000 * 1.4\<close> is the double just below 120960000.
\<close>

lemma minute_gap_limit:
  "int_times_float 60000 float_1_4 = Inr (Fin 5772436045824000 (- 36))"
  by (simp add: float_eval Let_def)

lemma day_gap_limit:
  "int_times_float 86400000 float_1_4 = Inr (Fin 8117488189439999 (- 26))"
  by (simp add: float_eval Let_def)

lemma minute_stale_limit:
  "int_times_float 60000 float_2_0 = Inr (Fin 8246337208320000 (- 36))"
  by (simp add: float_eval Let_def)

lemma float_of_minute: "float_of_int 60000 = Inr (Fin 8246337208320000 (- 37))"
  by (simp add: float_eval Let_def)

text \<open>Clock readings of a whole number of seconds, in milliseconds.\<close>

lemma clock_ms_examples:
  "clock_ms (Fin 0 0) = Inr 0"
  "clock_ms (Fin 1000 0) = Inr 1000000"
  "clock_ms (Fin 1000000 0) = Inr 1000000000"
  "clock_ms (Fin 1000100 0) = Inr 1000100000"
  "clock_ms (Fin 1001800 0) = Inr 1001800000"
  by (simp_all add: float_eval Let_def)

subsection \<open>Timeframe parsing\<close>

text \<open>On every non-empty string the computation returns an interval.\<close>

lemma timeframe_ms_total: "tf \<noteq> [] \<Longrightarrow> \<exists>e. timeframe_ms tf = Inr e"
  by (simp add: timeframe_ms_def Let_def split: option.splits)

text \<open>
  A non-empty string whose prefix is not an integer, or whose last character is none of
  s, m, h, d, gives the default of 300000 ms.
\<close>

lemma timeframe_ms_default:
  assumes "tf \<noteq> []"
    and "py_int (butlast tf) = None \<or> last tf \<notin> {CHR ''s'', CHR ''m'', CHR ''h'', CHR ''d''}"
  shows "timeframe_ms tf = Inr 300000"
  using assms by (auto simp: timeframe_ms_def Let_def split: option.splits)

lemma timeframe_ms_minute: "timeframe_ms ''1m'' = Inr 60000"
  by (simp add: monitor_eval)

text \<open>
  Evaluation of a call on the default monitor and timeframe \<open>1m\<close> through the
  products and clock readings computed above.
\<close>

lemmas call_eval =
  evaluate_def first_field_def should_alert_def alert_key_def default_monitor_def
  Let_def alerted_def evaluate_call_def call_key_def last_or_0_def stale_call_def
  timeframe_ms_minute minute_gap_limit minute_stale_limit clock_ms_examples
  int_gt_float_def

text \<open>
  C2. The claim holds on every non-empty timeframe (\<open>timeframe_ms_total\<close> and
  \<open>timeframe_ms_default\<close> above), and
  \<open>bogus\<close> gives 300000. On the empty string, which the claim lists among the strings
  that degrade to the default, \<open>timeframe[-1]\<close> raises \<open>IndexError\<close> outside the
  \<open>try\<close>, and \<open>evaluate\<close> on an enabled monitor with two candles fails with it.
\<close>

theorem empty_timeframe_raises:
  "timeframe_ms '''' = Inl IndexError \<and>
   evaluate default_monitor (Fin 1700000000 0) 1700000000 ''BTC/USD'' ''''
     [[0, 1, 1, 1, 1, 1], [100, 1, 1, 1, 1, 1]] = (Inl IndexError, default_monitor) \<and>
   timeframe_ms ''bogus'' = Inr 300000"
  by (simp add: monitor_eval)

text \<open>
  At that input the guard of \<open>evaluate\<close> is passed (the monitor is enabled and two
  candles are supplied), so the exception comes from the timeframe alone.
\<close>

theorem empty_timeframe_raises_witness:
  "enabled default_monitor \<and>
   \<not> length [[0::int, 1, 1, 1, 1, 1], [100, 1, 1, 1, 1, 1]] < 2 \<and>
   fst (evaluate default_monitor (Fin 1700000000 0) 1700000000 ''BTC/USD'' ''''
     [[0, 1, 1, 1, 1, 1], [100, 1, 1, 1, 1, 1]]) = Inl IndexError"
  using empty_timeframe_raises by (simp add: default_monitor_def)

subsection \<open>What a call returns and what it leaves\<close>

lemma should_alert_cases:
  "(alert_interval_sec m \<le> now - last_or_0 m k \<and>
      should_alert m now k = (True, m\<lparr>last_alert := (last_alert m)(k \<mapsto> now)\<rparr>)) \<or>
   (\<not> alert_interval_sec m \<le> now - last_or_0 m k \<and> should_alert m now k = (False, m))"
  by (simp add: should_alert_def last_or_0_def Let_def)

lemma evaluate_None_iff:
  "fst (evaluate m te ta sy tf cs) = Inr None \<longleftrightarrow> (\<not> enabled m \<or> length cs < 2)"
  by (simp add: evaluate_def Let_def split: sum.splits)

lemma evaluate_raises:
  assumes "enabled m" and "2 \<le> length cs"
    and "tf = [] \<or> last cs = [] \<or> last (butlast cs) = []"
  shows "evaluate m te ta sy tf cs = (Inl IndexError, m)"
  using assms
  by (auto simp: evaluate_def timeframe_ms_def first_field_def Let_def
      split: sum.splits list.splits option.splits)

lemma evaluate_returns:
  assumes "enabled m" and "2 \<le> length cs"
    and "timeframe_ms tf = Inr e" and "last cs = x # xr" and "last (butlast cs) = y # yr"
    and "float_of_int e = Inr fe" and "clock_ms te = Inr now_ms"
  shows "\<exists>st. fst (evaluate m te ta sy tf cs) = Inr (Some st) \<and>
           last_ts st = x \<and> gap_ms st = x - y \<and>
           gap_detected st = int_gt_float (x - y) (fmul fe (gap_multiplier m)) \<and>
           stale st = int_gt_float (now_ms - x) (fmul fe (stale_multiplier m)) \<and>
           alert st = ((gap_detected st \<or> stale st) \<and>
                         alert_interval_sec m \<le> ta - last_or_0 m (alert_key sy tf))"
  using assms should_alert_cases [of m ta "alert_key sy tf"]
  by (auto simp: evaluate_def first_field_def int_times_float_def Let_def)

lemma evaluate_state:
  "snd (evaluate m te ta sy tf cs) =
     (if alerted (fst (evaluate m te ta sy tf cs))
      then m\<lparr>last_alert := (last_alert m)(alert_key sy tf \<mapsto> ta)\<rparr> else m)"
  using should_alert_cases [of m ta "alert_key sy tf"]
  by (auto simp: evaluate_def alerted_def Let_def split: sum.splits)

lemma evaluate_alerted_elapsed:
  "alerted (fst (evaluate m te ta sy tf cs)) \<Longrightarrow>
     alert_interval_sec m \<le> ta - last_or_0 m (alert_key sy tf)"
  using should_alert_cases [of m ta "alert_key sy tf"]
  by (auto simp: evaluate_def alerted_def Let_def split: sum.splits if_splits)

lemma evaluate_refires:
  assumes "fst (evaluate m te ta sy tf cs) = Inr (Some st)"
    and "gap_detected st \<or> stale st"
    and "alert_interval_sec m \<le> ta - last_or_0 m (alert_key sy tf)"
  shows "alert st"
  using assms should_alert_cases [of m ta "alert_key sy tf"]
  by (auto simp: evaluate_def Let_def split: sum.splits if_splits)

text \<open>
  C6 (as the code behaves). \<open>evaluate\<close> returns \<open>None\<close> exactly when the monitor is
  disabled or fewer than two candles are supplied. Otherwise it returns a status
  provided the timeframe string is not empty, the last two candle rows each have a
  first field, the expected interval converts to a float (as every interval below
  \<open>2 ^ 1023\<close> ms in magnitude does) and the clock reading in milliseconds is a finite
  float. In that status \<open>last_ts\<close> is the timestamp of the last candle, \<open>gap_ms\<close> is that
  timestamp minus the timestamp of the second-to-last candle, \<open>gap_detected\<close> holds iff
  \<open>gap_ms\<close> exceeds the float product of the expected interval and \<open>gap_multiplier\<close>, and
  \<open>stale\<close> holds iff the clock in milliseconds minus the last timestamp exceeds the
  float product of the expected interval and \<open>stale_multiplier\<close>; a float product is the
  exact product rounded to the nearest double, and the integer is compared with it
  exactly. Candles before the last two are never examined: the call on a batch ending
  in two rows is the call on those two rows. For candles \<open>[[0, ...], [100, ...]]\<close>,
  timeframe \<open>1m\<close> and \<open>gap_multiplier\<close> 1.4, \<open>gap_ms\<close> is 100 and no gap is detected.
\<close>

theorem evaluate_status_fields:
  "(fst (evaluate m te ta sy tf cs) = Inr None \<longleftrightarrow> (\<not> enabled m \<or> length cs < 2)) \<and>
   (tf \<noteq> [] \<longrightarrow> (\<exists>e. timeframe_ms tf = Inr e)) \<and>
   (\<bar>e\<bar> < 2 ^ 1023 \<longrightarrow> (\<exists>fe. float_of_int e = Inr fe)) \<and>
   (enabled m \<and> 2 \<le> length cs \<and> last cs \<noteq> [] \<and> last (butlast cs) \<noteq> [] \<and>
    timeframe_ms tf = Inr e \<and> float_of_int e = Inr fe \<and> clock_ms te = Inr now_ms \<longrightarrow>
      (\<exists>st. fst (evaluate m te ta sy tf cs) = Inr (Some st) \<and>
         last_ts st = hd (last cs) \<and>
         gap_ms st = hd (last cs) - hd (last (butlast cs)) \<and>
         gap_detected st = int_gt_float (gap_ms st) (fmul fe (gap_multiplier m)) \<and>
         stale st = int_gt_float (now_ms - hd (last cs)) (fmul fe (stale_multiplier m)))) \<and>
   evaluate m te ta sy tf (pre @ [a, b]) = evaluate m te ta sy tf [a, b] \<and>
   (enabled m \<and> gap_multiplier m = float_1_4 \<and> clock_ms te = Inr now_ms \<longrightarrow>
      (\<exists>st. fst (evaluate m te ta sy ''1m'' [0 # r0, 100 # r1]) = Inr (Some st) \<and>
         gap_ms st = 100 \<and> \<not> gap_detected st))"
proof (intro conjI impI)
  show "fst (evaluate m te ta sy tf cs) = Inr None \<longleftrightarrow> (\<not> enabled m \<or> length cs < 2)"
    by (rule evaluate_None_iff)
next
  assume "tf \<noteq> []"
  then show "\<exists>e. timeframe_ms tf = Inr e" by (rule timeframe_ms_total)
next
  assume "\<bar>e\<bar> < 2 ^ 1023"
  then show "\<exists>fe. float_of_int e = Inr fe" by (rule float_of_int_in_range)
next
  assume h: "enabled m \<and> 2 \<le> length cs \<and> last cs \<noteq> [] \<and> last (butlast cs) \<noteq> [] \<and>
    timeframe_ms tf = Inr e \<and> float_of_int e = Inr fe \<and> clock_ms te = Inr now_ms"
  obtain x xr where x: "last cs = x # xr" using h by (cases "last cs") auto
  obtain y yr where y: "last (butlast cs) = y # yr" using h by (cases "last (butlast cs)") auto
  obtain st where "fst (evaluate m te ta sy tf cs) = Inr (Some st)" "last_ts st = x"
    "gap_ms st = x - y"
    "gap_detected st = int_gt_float (x - y) (fmul fe (gap_multiplier m))"
    "stale st = int_gt_float (now_ms - x) (fmul fe (stale_multiplier m))"
    using evaluate_returns [of m cs tf e x xr y yr fe te now_ms ta sy] h x y by blast
  then show "\<exists>st. fst (evaluate m te ta sy tf cs) = Inr (Some st) \<and>
         last_ts st = hd (last cs) \<and>
         gap_ms st = hd (last cs) - hd (last (butlast cs)) \<and>
         gap_detected st = int_gt_float (gap_ms st) (fmul fe (gap_multiplier m)) \<and>
         stale st = int_gt_float (now_ms - hd (last cs)) (fmul fe (stale_multiplier m))"
    using x y by auto
next
  have l: "last (pre @ [a, b]) = last [a, b]" by simp
  have b: "last (butlast (pre @ [a, b])) = last (butlast [a, b])" by (simp add: butlast_append)
  have n: "length (pre @ [a, b]) < 2 \<longleftrightarrow> length [a, b] < 2" by simp
  show "evaluate m te ta sy tf (pre @ [a, b]) = evaluate m te ta sy tf [a, b]"
    unfolding evaluate_def l b n ..
next
  assume h: "enabled m \<and> gap_multiplier m = float_1_4 \<and> clock_ms te = Inr now_ms"
  have fe: "float_of_int 60000 = Inr (Fin 8246337208320000 (- 37))" by (rule float_of_minute)
  have lim: "fmul (Fin 8246337208320000 (- 37)) float_1_4 = Fin 5772436045824000 (- 36)"
    using minute_gap_limit by (simp add: int_times_float_def fe)
  obtain st where "fst (evaluate m te ta sy ''1m'' [0 # r0, 100 # r1]) = Inr (Some st)"
    "gap_ms st = 100 - 0"
    "gap_detected st = int_gt_float (100 - 0) (fmul (Fin 8246337208320000 (- 37)) (gap_multiplier m))"
    using evaluate_returns [of m "[0 # r0, 100 # r1]" "''1m''" 60000 100 r1 0 r0
        "Fin 8246337208320000 (- 37)" te now_ms ta sy] h timeframe_ms_minute fe
    by auto
  then show "\<exists>st. fst (evaluate m te ta sy ''1m'' [0 # r0, 100 # r1]) = Inr (Some st) \<and>
         gap_ms st = 100 \<and> \<not> gap_detected st"
    using h lim by (auto simp: int_gt_float_def)
qed

text \<open>
  The default monitor 1000 s after the epoch on two candles at 0 and 100 ms: the gap of
  100 ms is below 84000.0, the age of 999900 ms is above 120000.0. One candle, or a
  disabled monitor, gives \<open>None\<close>.
\<close>

theorem evaluate_status_fields_witness:
  "enabled default_monitor \<and> (2::nat) \<le> length [[0::int, 1], [100, 2]] \<and>
   timeframe_ms ''1m'' = Inr 60000 \<and> \<bar>60000::int\<bar> < 2 ^ 1023 \<and>
   float_of_int 60000 = Inr (Fin 8246337208320000 (- 37)) \<and>
   clock_ms (Fin 1000 0) = Inr 1000000 \<and> gap_multiplier default_monitor = float_1_4 \<and>
   fst (evaluate default_monitor (Fin 1000 0) 1000 ''BTC/USD'' ''1m'' [[0, 1], [100, 2]]) =
     Inr (Some \<lparr>last_ts = 100, gap_ms = 100, gap_detected = False, stale = True,
                 alert = False\<rparr>) \<and>
   fst (evaluate default_monitor (Fin 1000 0) 1000 ''BTC/USD'' ''1m'' [[0, 1]]) = Inr None \<and>
   fst (evaluate (default_monitor\<lparr>enabled := False\<rparr>) (Fin 1000 0) 1000 ''BTC/USD'' ''1m''
     [[0, 1], [100, 2]]) = Inr None"
  using evaluate_status_fields [where m = default_monitor and te = "Fin 1000 0" and ta = 1000
      and sy = "''BTC/USD''" and tf = "''1m''" and cs = "[[0, 1], [100, 2]]"
      and e = 60000 and fe = "Fin 8246337208320000 (- 37)" and now_ms = 1000000
      and pre = "[]" and a = "[0, 1]" and b = "[100, 2]" and ?r0.0 = "[1]" and ?r1.0 = "[2]"]
    evaluate_status_fields [where m = default_monitor and te = "Fin 1000 0" and ta = 1000
      and sy = "''BTC/USD''" and tf = "''1m''" and cs = "[[0, 1]]"
      and e = 60000 and fe = "Fin 8246337208320000 (- 37)" and now_ms = 1000000
      and pre = "[]" and a = "[0, 1]" and b = "[100, 2]" and ?r0.0 = "[1]" and ?r1.0 = "[2]"]
    evaluate_status_fields [where m = "default_monitor\<lparr>enabled := False\<rparr>"
      and te = "Fin 1000 0" and ta = 1000 and sy = "''BTC/USD''" and tf = "''1m''"
      and cs = "[[0, 1], [100, 2]]"
      and e = 60000 and fe = "Fin 8246337208320000 (- 37)" and now_ms = 1000000
      and pre = "[]" and a = "[0, 1]" and b = "[100, 2]" and ?r0.0 = "[1]" and ?r1.0 = "[2]"]
  by (simp add: call_eval float_of_minute)

text \<open>
  The claim as stated fails. On an enabled monitor with two candles the call returns
  neither \<open>None\<close> nor a status, but raises, when the timeframe is the empty string, when
  the last row is empty, and when the expected interval is too large for a float (a
  timeframe of 305 nines and \<open>m\<close>). And \<open>gap_detected\<close> does not follow the exact
  product: with the default multiplier, the double \<open>6305039478318694 / 2 ^ 52\<close> nearest
  to 1.4, a gap of 84000 ms exceeds 60000 times the multiplier, yet no gap is detected,
  since the float product rounds up to 84000.0.
\<close>

lemma huge_timeframe_overflows:
  "fst (evaluate default_monitor (Fin 1700000000 0) 1700000000 ''ETH/USD''
     ''99999999999999999999999999999999999999999999999999999999999999999999999999999999999999999999999999999999999999999999999999999999999999999999999999999999999999999999999999999999999999999999999999999999999999999999999999999999999999999999999999999999999999999999999999999999999999999999999999999999999999999m'' [[0, 1], [100, 2]]) = Inl OverflowError"
  by code_simp

theorem evaluate_raises_instead_of_status:
  "enabled default_monitor \<and> \<not> length [[0::int, 1], [100, 2]] < 2 \<and>
   fst (evaluate default_monitor (Fin 1700000000 0) 1700000000 ''ETH/USD'' ''''
     [[0, 1], [100, 2]]) = Inl IndexError \<and>
   fst (evaluate default_monitor (Fin 1700000000 0) 1700000000 ''ETH/USD'' ''1m''
     [[0, 1], []]) = Inl IndexError \<and>
   fst (evaluate default_monitor (Fin 1700000000 0) 1700000000 ''ETH/USD''
     ''99999999999999999999999999999999999999999999999999999999999999999999999999999999999999999999999999999999999999999999999999999999999999999999999999999999999999999999999999999999999999999999999999999999999999999999999999999999999999999999999999999999999999999999999999999999999999999999999999999999999999999m'' [[0, 1], [100, 2]]) = Inl OverflowError \<and>
   gap_multiplier default_monitor = Fin 6305039478318694 (- 52) \<and>
   real_of_int 84000 > real_of_int 60000 * (6305039478318694 / 2 ^ 52) \<and>
   fst (evaluate default_monitor (Fin 0 0) 0 ''ETH/USD'' ''1m'' [[0, 1], [84000, 2]]) =
     Inr (Some \<lparr>last_ts = 84000, gap_ms = 84000, gap_detected = False, stale = False,
                 alert = False\<rparr>)"
proof -
  have mult: "gap_multiplier default_monitor = Fin 6305039478318694 (- 52)"
    by (simp add: default_monitor_def float_1_4_def)
  have exact: "real_of_int 84000 > real_of_int 60000 * (6305039478318694 / 2 ^ 52)"
    by simp
  have empty_tf:
    "fst (evaluate default_monitor (Fin 1700000000 0) 1700000000 ''ETH/USD'' ''''
       [[0, 1], [100, 2]]) = Inl IndexError"
    by (simp add: evaluate_def timeframe_ms_def default_monitor_def)
  have empty_row:
    "fst (evaluate default_monitor (Fin 1700000000 0) 1700000000 ''ETH/USD'' ''1m''
       [[0, 1], []]) = Inl IndexError"
    by (simp add: evaluate_def timeframe_ms_minute first_field_def default_monitor_def)
  have boundary:
    "fst (evaluate default_monitor (Fin 0 0) 0 ''ETH/USD'' ''1m'' [[0, 1], [84000, 2]]) =
       Inr (Some \<lparr>last_ts = 84000, gap_ms = 84000, gap_detected = False, stale = False,
                   alert = False\<rparr>)"
    by (simp add: call_eval)
  have guard: "enabled default_monitor \<and> \<not> length [[0::int, 1], [100, 2]] < 2"
    by (simp add: default_monitor_def)
  show ?thesis
    using guard empty_tf empty_row huge_timeframe_overflows mult exact boundary
    by (intro conjI) simp_all
qed

text \<open>
  C10. A call of \<open>evaluate\<close> changes the monitor only when the returned status carries
  \<open>alert = True\<close>, and then only by setting the last-alert entry of the evaluated
  \<open>symbol:timeframe\<close> key to the current time; every other call (a status with
  \<open>alert = False\<close>, suppressed or not, \<open>None\<close>, or an exception) leaves the monitor as
  it was, and the entries of all other keys are never touched.
\<close>

theorem last_alert_frame:
  "(alerted (fst (evaluate m te ta sy tf cs)) \<longrightarrow>
      snd (evaluate m te ta sy tf cs) =
        m\<lparr>last_alert := (last_alert m)(alert_key sy tf \<mapsto> ta)\<rparr>) \<and>
   (\<not> alerted (fst (evaluate m te ta sy tf cs)) \<longrightarrow> snd (evaluate m te ta sy tf cs) = m) \<and>
   (\<forall>k. k \<noteq> alert_key sy tf \<longrightarrow>
      last_alert (snd (evaluate m te ta sy tf cs)) k = last_alert m k)"
  by (simp add: evaluate_state)

text \<open>
  A stale feed on the default monitor: the first call alerts and records its time; a
  second call 100 s later is suppressed and leaves the recorded time at the first.
\<close>

theorem last_alert_frame_witness:
  "evaluate default_monitor (Fin 1000000 0) 1000000 ''BTC/USD'' ''1m''
       [[0, 1], [60000, 2]] =
     (Inr (Some \<lparr>last_ts = 60000, gap_ms = 60000, gap_detected = False, stale = True,
                  alert = True\<rparr>),
      default_monitor\<lparr>last_alert := [''BTC/USD:1m'' \<mapsto> 1000000]\<rparr>) \<and>
   evaluate (default_monitor\<lparr>last_alert := [''BTC/USD:1m'' \<mapsto> 1000000]\<rparr>)
       (Fin 1000100 0) 1000100 ''BTC/USD'' ''1m'' [[0, 1], [60000, 2]] =
     (Inr (Some \<lparr>last_ts = 60000, gap_ms = 60000, gap_detected = False, stale = True,
                  alert = False\<rparr>),
      default_monitor\<lparr>last_alert := [''BTC/USD:1m'' \<mapsto> 1000000]\<rparr>)"
  using last_alert_frame [where m = default_monitor and te = "Fin 1000000 0"
      and ta = 1000000 and sy = "''BTC/USD''" and tf = "''1m''"
      and cs = "[[0, 1], [60000, 2]]"]
    last_alert_frame [where
      m = "default_monitor\<lparr>last_alert := [''BTC/USD:1m'' \<mapsto> 1000000]\<rparr>"
      and te = "Fin 1000100 0" and ta = 1000100
      and sy = "''BTC/USD''" and tf = "''1m''" and cs = "[[0, 1], [60000, 2]]"]
  by (simp add: call_eval)

subsection \<open>Alert rate limiting over a run\<close>

lemma evaluate_call_config:
  "alert_interval_sec (snd (evaluate_call m c)) = alert_interval_sec m"
  by (simp add: evaluate_call_def evaluate_state)

lemma evaluate_call_state:
  "snd (evaluate_call m c) =
     (if alerted (fst (evaluate_call m c))
      then m\<lparr>last_alert := (last_alert m)(call_key c \<mapsto> call_alert_time c)\<rparr> else m)"
  by (simp add: evaluate_call_def call_key_def evaluate_state)

lemma evaluate_call_elapsed:
  "alerted (fst (evaluate_call m c)) \<Longrightarrow>
     alert_interval_sec m \<le> call_alert_time c - last_or_0 m (call_key c)"
  by (simp add: evaluate_call_def call_key_def evaluate_alerted_elapsed)

lemma last_or_0_step:
  "last_or_0 (snd (evaluate_call m c)) k =
     (if call_key c = k \<and> alerted (fst (evaluate_call m c)) then call_alert_time c
      else last_or_0 m k)"
  by (simp add: evaluate_call_state last_or_0_def)

lemma alert_times_spaced:
  assumes "0 \<le> alert_interval_sec m"
  shows "sorted_wrt (\<lambda>a b. alert_interval_sec m \<le> b - a) (alert_times m k cs) \<and>
         (\<forall>t \<in> set (alert_times m k cs). alert_interval_sec m \<le> t - last_or_0 m k)"
  using assms
proof (induction cs arbitrary: m)
  case Nil
  then show ?case by simp
next
  case (Cons c cs)
  let ?next = "snd (evaluate_call m c)"
  let ?I = "alert_interval_sec m"
  have cfg: "alert_interval_sec ?next = ?I" by (rule evaluate_call_config)
  have ih: "sorted_wrt (\<lambda>a b. ?I \<le> b - a) (alert_times ?next k cs)"
    and ih2: "\<forall>t \<in> set (alert_times ?next k cs). ?I \<le> t - last_or_0 ?next k"
    using Cons.IH [of ?next] Cons.prems cfg by simp_all
  show ?case
  proof (cases "call_key c = k \<and> alerted (fst (evaluate_call m c))")
    case True
    then have now: "last_or_0 ?next k = call_alert_time c" by (simp add: last_or_0_step)
    have el: "?I \<le> call_alert_time c - last_or_0 m k"
      using True evaluate_call_elapsed [of m c] by simp
    have later: "\<forall>t \<in> set (alert_times ?next k cs). ?I \<le> t - call_alert_time c"
      using ih2 now by simp
    have far: "\<forall>t \<in> set (alert_times ?next k cs). ?I \<le> t - last_or_0 m k"
    proof
      fix t assume "t \<in> set (alert_times ?next k cs)"
      then have "?I \<le> t - call_alert_time c" using later by simp
      then show "?I \<le> t - last_or_0 m k" using el Cons.prems by linarith
    qed
    show ?thesis using True ih later far el by simp
  next
    case False
    then have "last_or_0 ?next k = last_or_0 m k" by (auto simp: last_or_0_step)
    then show ?thesis using False ih ih2 by auto
  qed
qed

lemma alert_times_last:
  "last_alert (evaluate_calls m cs) k =
     (if alert_times m k cs = [] then last_alert m k else Some (last (alert_times m k cs)))"
proof (induction cs arbitrary: m)
  case Nil
  then show ?case by simp
next
  case (Cons c cs)
  let ?next = "snd (evaluate_call m c)"
  have step: "last_alert ?next k =
      (if call_key c = k \<and> alerted (fst (evaluate_call m c)) then Some (call_alert_time c)
       else last_alert m k)"
    by (simp add: evaluate_call_state)
  show ?case using Cons.IH [of ?next] step by simp
qed


text \<open>
  C5. In every sequence of \<open>evaluate\<close> calls on a monitor with a non-negative
  \<open>alert_interval_sec\<close>, any two calls for the same key whose returned statuses carry
  \<open>alert = True\<close> are at least \<open>alert_interval_sec\<close> apart, however many calls meeting
  the gap or stale condition lie between them. The last-alert entry of a key is the time
  of the last alert fired for it; and when at least \<open>alert_interval_sec\<close> has elapsed
  since that time, a call that returns a status with a gap or staleness carries
  \<open>alert = True\<close>.
\<close>

theorem alert_rate_limit:
  "(0 \<le> alert_interval_sec m \<longrightarrow>
      sorted_wrt (\<lambda>a b. alert_interval_sec m \<le> b - a) (alert_times m k cs)) \<and>
   (alert_times m k cs \<noteq> [] \<longrightarrow>
      last_alert (evaluate_calls m cs) k = Some (last (alert_times m k cs))) \<and>
   (last_alert m (alert_key sy tf) = Some t0 \<and> alert_interval_sec m \<le> ta - t0 \<and>
    fst (evaluate m te ta sy tf ohlcv) = Inr (Some st) \<and> (gap_detected st \<or> stale st) \<longrightarrow>
      alert st)"
proof (intro conjI impI)
  assume "0 \<le> alert_interval_sec m"
  then show "sorted_wrt (\<lambda>a b. alert_interval_sec m \<le> b - a) (alert_times m k cs)"
    using alert_times_spaced [of m k cs] by simp
next
  assume "alert_times m k cs \<noteq> []"
  then show "last_alert (evaluate_calls m cs) k = Some (last (alert_times m k cs))"
    by (simp add: alert_times_last)
next
  assume h: "last_alert m (alert_key sy tf) = Some t0 \<and> alert_interval_sec m \<le> ta - t0 \<and>
    fst (evaluate m te ta sy tf ohlcv) = Inr (Some st) \<and> (gap_detected st \<or> stale st)"
  then have "alert_interval_sec m \<le> ta - last_or_0 m (alert_key sy tf)"
    by (simp add: last_or_0_def)
  then show "alert st" using h evaluate_refires [of m te ta sy tf ohlcv st] by simp
qed


text \<open>
  Three calls on a stale feed with the default interval of 1800 s: the first alerts,
  the second, 100 s later, does not, the third, 1800 s after the first, alerts again.
\<close>

theorem alert_rate_limit_witness:
  "(0::real) \<le> alert_interval_sec default_monitor \<and>
   alert_times default_monitor ''BTC/USD:1m''
     [stale_call 1000000, stale_call 1000100, stale_call 1001800] = [1000000, 1001800] \<and>
   sorted_wrt (\<lambda>a b. alert_interval_sec default_monitor \<le> b - a) [1000000, 1001800] \<and>
   last_alert (evaluate_calls default_monitor
     [stale_call 1000000, stale_call 1000100, stale_call 1001800]) ''BTC/USD:1m''
     = Some 1001800 \<and>
   fst (evaluate (default_monitor\<lparr>last_alert := [''BTC/USD:1m'' \<mapsto> 1000000]\<rparr>)
       (Fin 1001800 0) 1001800 ''BTC/USD'' ''1m'' [[0, 1], [60000, 2]]) =
     Inr (Some \<lparr>last_ts = 60000, gap_ms = 60000, gap_detected = False, stale = True,
                 alert = True\<rparr>)"
  using alert_rate_limit [where m = default_monitor and k = "''BTC/USD:1m''"
      and cs = "[stale_call 1000000, stale_call 1000100, stale_call 1001800]"
      and sy = "''BTC/USD''" and tf = "''1m''" and ?t0.0 = 1000000 and ta = 1001800
      and te = "Fin 1001800 0" and ohlcv = "[[0, 1], [60000, 2]]"
      and st = "\<lparr>last_ts = 60000, gap_ms = 60000, gap_detected = False, stale = True,
                 alert = True\<rparr>"]
    alert_rate_limit [where
      m = "default_monitor\<lparr>last_alert := [''BTC/USD:1m'' \<mapsto> 1000000]\<rparr>"
      and sy = "''BTC/USD''" and tf = "''1m''" and ?t0.0 = 1000000 and ta = 1001800
      and te = "Fin 1001800 0" and ohlcv = "[[0, 1], [60000, 2]]" and cs = "[]"
      and k = "''BTC/USD:1m''"
      and st = "\<lparr>last_ts = 60000, gap_ms = 60000, gap_detected = False, stale = True,
                 alert = True\<rparr>"]
  by (simp add: call_eval)


end
